theory Spec2Isabelle
  imports
    Main
    "HOL-Library.Word"
    "HOL-Library.AList"
    "HOL-Library.List_Lexorder"
    "HOL-Library.Char_ord"
begin

chapter \<open>myRPC: server dispatch, client core, registry, discovery and XClient\<close>

section \<open>Errors\<close>

text \<open>
  Go \<open>error\<close> values. \<open>ErrShutdown\<close> is the package variable of the client;
  \<open>ErrMsg\<close> is an error made by \<open>errors.New\<close> or \<open>fmt.Errorf\<close> from its message;
  \<open>ErrConnectTimeout d\<close> is the error \<open>dialTimeout\<close> formats from the duration \<open>d\<close>.
  A nil error is \<open>None\<close> of \<open>err option\<close>.
\<close>

datatype err = ErrShutdown | ErrMsg string | ErrConnectTimeout int

section \<open>Service reflector (service.go as documented in Day 3)\<close>

text \<open>
  The part of \<open>reflect.Type\<close> that the reflector looks at: \<open>Name()\<close>, \<open>PkgPath()\<close>,
  \<open>Kind()\<close> and \<open>Elem()\<close>. \<open>Elem()\<close> panics on a type that has no element type,
  which is \<open>None\<close> here.
\<close>

datatype Kind =
  BoolKind | IntKind | StringKind | StructKind | PtrKind | MapKind | SliceKind | InterfaceKind
  | FuncKind

datatype rtype = RType (tName: string) (tPkgPath: string) (tKind: Kind) (tElem: "rtype option")

text \<open>A \<open>reflect.Method\<close>: its name and the inputs (receiver first) and outputs of its type.\<close>

record Method =
  mName :: string
  mIn :: "rtype list"
  mOut :: "rtype list"

record methodType =
  method' :: Method
  ArgType :: rtype
  ReplyType :: rtype
  numCalls :: "64 word"

text \<open>
  A service. \<open>typ'\<close> is \<open>s.typ\<close> as \<open>registerMethods\<close> sees it: the methods
  \<open>s.typ.Method(0)\<close>, ..., \<open>s.typ.Method(NumMethod() - 1)\<close>. The Go map \<open>method\<close> of the service is
  \<open>methodMap\<close> and the field \<open>method\<close> of a descriptor is \<open>method'\<close>. The map
  holds non-nil pointers only, so a missing key and a nil value are the same \<open>None\<close>.
\<close>

record service =
  name :: string
  typ' :: "Method list"
  methodMap :: "string \<rightharpoonup> methodType"

text \<open>\<open>reflect.TypeOf((*error)(nil)).Elem()\<close>: the predeclared interface type \<open>error\<close>.\<close>

definition errorType :: rtype where
  "errorType = RType ''error'' '''' InterfaceKind None"

text \<open>
  \<open>ast.IsExported\<close> belongs to the Go library; it is the parameter \<open>exported\<close> of the
  functions that call it.
\<close>

definition isExportedOrBuiltinType :: "(string \<Rightarrow> bool) \<Rightarrow> rtype \<Rightarrow> bool" where
  "isExportedOrBuiltinType exported t \<longleftrightarrow> exported (tName t) \<or> tPkgPath t = ''''"

text \<open>The loop of \<open>registerMethods\<close>, one method of \<open>s.typ\<close> per step; \<open>continue\<close> skips.\<close>

fun registerLoop ::
  "(string \<Rightarrow> bool) \<Rightarrow> Method list \<Rightarrow> (string \<rightharpoonup> methodType) \<Rightarrow> (string \<rightharpoonup> methodType)"
where
  "registerLoop exported [] m = m"
| "registerLoop exported (md # mds) m =
     (if length (mIn md) \<noteq> 3 \<or> length (mOut md) \<noteq> 1 then registerLoop exported mds m
      else if mOut md ! 0 \<noteq> errorType then registerLoop exported mds m
      else
        (let argType = mIn md ! 1; replyType = mIn md ! 2 in
         if \<not> isExportedOrBuiltinType exported argType
            \<or> \<not> isExportedOrBuiltinType exported replyType
         then registerLoop exported mds m
         else registerLoop exported mds
           (m(mName md \<mapsto>
              \<lparr>method' = md, ArgType = argType, ReplyType = replyType, numCalls = 0\<rparr>))))"

definition registerMethods :: "(string \<Rightarrow> bool) \<Rightarrow> service \<Rightarrow> service" where
  "registerMethods exported s = s\<lparr>methodMap := registerLoop exported (typ' s) Map.empty\<rparr>"

text \<open>
  \<open>newReplyv\<close> allocates the reply value of a request. It starts with
  \<open>m.ReplyType.Elem()\<close>, which panics when the reply type has no element type; otherwise
  the new value points to a zero value, an empty map or an empty slice.
\<close>

datatype replyInit = ZeroValue | MakeMap | MakeSlice

datatype panic = Panic string

fun newReplyv :: "methodType \<Rightarrow> panic + (rtype \<times> replyInit)" where
  "newReplyv m =
     (case tElem (ReplyType m) of
        None \<Rightarrow> Inl (Panic ''reflect: Elem of invalid type'')
      | Some t \<Rightarrow>
          Inr (t, (case tKind t of MapKind \<Rightarrow> MakeMap | SliceKind \<Rightarrow> MakeSlice | _ \<Rightarrow> ZeroValue)))"

section \<open>Server: findService\<close>

text \<open>\<open>strings.LastIndex(s, ".")\<close> for a one-byte separator: the last index, or \<open>-1\<close>.\<close>

fun lastIndexFrom :: "string \<Rightarrow> char \<Rightarrow> int \<Rightarrow> int \<Rightarrow> int" where
  "lastIndexFrom [] c i found = found"
| "lastIndexFrom (x # xs) c i found = lastIndexFrom xs c (i + 1) (if x = c then i else found)"

definition LastIndex :: "string \<Rightarrow> char \<Rightarrow> int" where
  "LastIndex s c = lastIndexFrom s c 0 (- 1)"

record Server =
  serviceMap :: "string \<rightharpoonup> service"

text \<open>
  \<open>findService\<close> has the named results \<open>(svc, mtype, err)\<close>; each \<open>return\<close> gives back
  what has been assigned so far, so an unknown method is reported together with the service.
\<close>

definition findService ::
  "Server \<Rightarrow> string \<Rightarrow> service option \<times> methodType option \<times> err option"
where
  "findService server serviceMethod =
     (let dot = LastIndex serviceMethod (CHR ''.'') in
      if dot < 0 then
        (None, None,
         Some (ErrMsg (''rpc server: service/method request ill-formed: '' @ serviceMethod)))
      else
        (let serviceName = take (nat dot) serviceMethod;
             methodName = drop (nat dot + 1) serviceMethod in
         case serviceMap server serviceName of
           None \<Rightarrow> (None, None, Some (ErrMsg (''rpc server: can't find service '' @ serviceName)))
         | Some svc \<Rightarrow>
             (case methodMap svc methodName of
                None \<Rightarrow>
                  (Some svc, None, Some (ErrMsg (''rpc server: can't find method '' @ methodName)))
              | Some mtype \<Rightarrow> (Some svc, Some mtype, None))))"

text \<open>Concrete types and services used to run the definitions.\<close>

definition asciiExported :: "string \<Rightarrow> bool" where
  "asciiExported s = (case s of [] \<Rightarrow> False | c # _ \<Rightarrow> CHR ''A'' \<le> c \<and> c \<le> CHR ''Z'')"

definition intType :: rtype where
  "intType = RType ''int'' '''' IntKind None"

definition argsType :: rtype where
  "argsType = RType ''Args'' ''main'' StructKind None"

definition fooType :: rtype where
  "fooType = RType ''Foo'' ''main'' StructKind None"

definition ptrIntType :: rtype where
  "ptrIntType = RType '''' '''' PtrKind (Some intType)"

definition sumMethod :: Method where
  "sumMethod = \<lparr>mName = ''Sum'', mIn = [fooType, argsType, ptrIntType], mOut = [errorType]\<rparr>"

text \<open>\<open>func (f Foo) Bad(args Args, reply int) error\<close>: the reply is not a pointer.\<close>

definition badMethod :: Method where
  "badMethod = \<lparr>mName = ''Bad'', mIn = [fooType, argsType, intType], mOut = [errorType]\<rparr>"

definition fooService :: service where
  "fooService =
     registerMethods asciiExported
       \<lparr>name = ''Foo'', typ' = [badMethod, sumMethod], methodMap = Map.empty\<rparr>"

definition fooServer :: Server where
  "fooServer = \<lparr>serviceMap = [''Foo'' \<mapsto> fooService]\<rparr>"

section \<open>Registry (registry.go)\<close>

text \<open>
  Instants (\<open>time.Time\<close>) and durations (\<open>time.Duration\<close>) are integers, in
  nanoseconds; \<open>t.Add(d).After(now)\<close> is \<open>now < t + d\<close>. The map \<open>servers\<close> is an
  association list with one entry per key; its order stands for the order in which
  \<open>range\<close> happens to visit the map. \<open>getAliveServers\<close> reads the clock for each
  entry while it holds the mutex; these readings are taken to be one instant, \<open>now\<close>.
\<close>

record ServerItem =
  Addr :: string
  start :: int

record CenterRegistry =
  timeout :: int
  servers :: "(string \<times> ServerItem) list"

definition New :: "int \<Rightarrow> CenterRegistry" where
  "New t = \<lparr>timeout = t, servers = []\<rparr>"

definition putServer :: "CenterRegistry \<Rightarrow> int \<Rightarrow> string \<Rightarrow> CenterRegistry" where
  "putServer r now addr =
     (case map_of (servers r) addr of
        None \<Rightarrow> r\<lparr>servers := AList.update addr \<lparr>Addr = addr, start = now\<rparr> (servers r)\<rparr>
      | Some server \<Rightarrow> r\<lparr>servers := AList.update addr (server\<lparr>start := now\<rparr>) (servers r)\<rparr>)"

text \<open>
  The loop of \<open>getAliveServers\<close>: \<open>range\<close> visits the entries the map had at the start;
  \<open>alive\<close> grows by \<open>append\<close>, and an expired entry is deleted from the map \<open>m\<close>.
\<close>

fun getAliveLoop ::
  "int \<Rightarrow> int \<Rightarrow> (string \<times> ServerItem) list \<Rightarrow> string list \<Rightarrow> (string \<times> ServerItem) list
   \<Rightarrow> string list \<times> (string \<times> ServerItem) list"
where
  "getAliveLoop t now [] alive m = (alive, m)"
| "getAliveLoop t now ((addr, server) # rest) alive m =
     (if t = 0 \<or> now < start server + t
      then getAliveLoop t now rest (alive @ [addr]) m
      else getAliveLoop t now rest alive (AList.delete addr m))"

definition getAliveServers :: "CenterRegistry \<Rightarrow> int \<Rightarrow> string list \<times> CenterRegistry" where
  "getAliveServers r now =
     (case getAliveLoop (timeout r) now (servers r) [] (servers r) of
        (alive, m) \<Rightarrow> (sort alive, r\<lparr>servers := m\<rparr>))"

text \<open>\<open>strings.Join\<close>.\<close>

fun Join :: "string list \<Rightarrow> string \<Rightarrow> string" where
  "Join [] sep = []"
| "Join [x] sep = x"
| "Join (x # y # ys) sep = x @ sep @ Join (y # ys) sep"

text \<open>
  A request as the registry reads it: the method and the header \<open>X-Myrpc-Server\<close>
  (\<open>Header.Get\<close> gives the empty string for a missing header). A response: the status
  (200 unless \<open>WriteHeader\<close> is called) and the header \<open>X-Myrpc-Servers\<close> if it was set.
\<close>

record Request =
  reqMethod :: string
  reqServer :: string

record Response =
  status :: nat
  respServers :: "string option"

definition ServeHTTP :: "CenterRegistry \<Rightarrow> int \<Rightarrow> Request \<Rightarrow> Response \<times> CenterRegistry" where
  "ServeHTTP r now req =
     (if reqMethod req = ''GET'' then
        (case getAliveServers r now of
           (alive, r') \<Rightarrow> (\<lparr>status = 200, respServers = Some (Join alive '','')\<rparr>, r'))
      else if reqMethod req = ''POST'' then
        (if reqServer req = [] then (\<lparr>status = 500, respServers = None\<rparr>, r)
         else (\<lparr>status = 200, respServers = None\<rparr>, putServer r now (reqServer req)))
      else (\<lparr>status = 405, respServers = None\<rparr>, r))"

text \<open>The addresses that a GET at \<open>now\<close> must report, as the registry's rule states it.\<close>

definition aliveAt :: "CenterRegistry \<Rightarrow> int \<Rightarrow> string \<Rightarrow> bool" where
  "aliveAt r now a \<longleftrightarrow>
     (case map_of (servers r) a of
        None \<Rightarrow> False
      | Some server \<Rightarrow> timeout r = 0 \<or> now < start server + timeout r)"

definition demoRegistry :: CenterRegistry where
  "demoRegistry =
     putServer (putServer (putServer (New 300) 100 ''tcp@b:2'') 350 ''tcp@c:3'') 400 ''tcp@a:1''"

section \<open>Slices of strings\<close>

text \<open>
  A heap of string arrays: an address is an index of the list, and \<open>makeStrings\<close> (the \<open>make\<close> of Go) allocates at
  the end. A slice is a window (\<open>off\<close>, \<open>len\<close>, \<open>cap\<close>) on the array at \<open>arr\<close>; two
  slices on the same array share their elements. The nil slice has length and capacity 0.
\<close>

type_synonym heap = "string list list"

record slice =
  arr :: nat
  off :: nat
  len :: nat
  cap :: nat

definition nilSlice :: slice where
  "nilSlice = \<lparr>arr = 0, off = 0, len = 0, cap = 0\<rparr>"

definition elems :: "heap \<Rightarrow> slice \<Rightarrow> string list" where
  "elems h s = take (len s) (drop (off s) (h ! arr s))"

text \<open>\<open>make([]string, n, c)\<close>.\<close>

definition makeStrings :: "heap \<Rightarrow> nat \<Rightarrow> nat \<Rightarrow> heap \<times> slice" where
  "makeStrings h n c = (h @ [replicate c []], \<lparr>arr = length h, off = 0, len = n, cap = c\<rparr>)"

text \<open>\<open>s[i] = v\<close>; an index outside the length panics.\<close>

definition setElem :: "heap \<Rightarrow> slice \<Rightarrow> nat \<Rightarrow> string \<Rightarrow> heap option" where
  "setElem h s i v =
     (if i < len s then Some (h[arr s := (h ! arr s)[off s + i := v]]) else None)"

text \<open>\<open>copy(dst, src)\<close>: the first \<open>min (len dst) (len src)\<close> elements.\<close>

fun copyElems :: "heap \<Rightarrow> slice \<Rightarrow> string list \<Rightarrow> nat \<Rightarrow> heap" where
  "copyElems h dst [] i = h"
| "copyElems h dst (v # vs) i =
     (if i < len dst
      then copyElems (h[arr dst := (h ! arr dst)[off dst + i := v]]) dst vs (i + 1)
      else h)"

definition copy :: "heap \<Rightarrow> slice \<Rightarrow> slice \<Rightarrow> heap" where
  "copy h dst src = copyElems h dst (elems h src) 0"

text \<open>
  \<open>append(s, v)\<close>: in place while the capacity lasts, into a new array otherwise (the
  growth of the capacity is the runtime's choice; one more element is the least).
\<close>

definition appendString :: "heap \<Rightarrow> slice \<Rightarrow> string \<Rightarrow> heap \<times> slice" where
  "appendString h s v =
     (if len s < cap s
      then (h[arr s := (h ! arr s)[off s + len s := v]], s\<lparr>len := len s + 1\<rparr>)
      else (h @ [elems h s @ [v]],
            \<lparr>arr = length h, off = 0, len = len s + 1, cap = len s + 1\<rparr>))"

text \<open>A run of writes \<open>s[i] = v\<close> to one slice; it stops at the first panic.\<close>

fun setElems :: "heap \<Rightarrow> slice \<Rightarrow> (nat \<times> string) list \<Rightarrow> heap option" where
  "setElems h s [] = Some h"
| "setElems h s ((i, v) # ws) =
     (case setElem h s i v of None \<Rightarrow> None | Some h' \<Rightarrow> setElems h' s ws)"

section \<open>Discovery (Day 6 and the discovery that asks the registry)\<close>

text \<open>
  \<open>SelectMode\<close> is an \<open>int\<close> with two named values. The random source \<open>r\<close> is outside
  the model: \<open>Get\<close> takes the next raw draw \<open>rnd\<close>, and \<open>d.r.Intn(n)\<close> is
  \<open>rnd mod n\<close>. \<open>index\<close> is never negative.
\<close>

definition RandomSelect :: int where
  "RandomSelect = 0"

definition RoundRobinSelect :: int where
  "RoundRobinSelect = 1"

record MultiServersDiscovery =
  dservers :: slice
  index :: nat

definition Update ::
  "'a MultiServersDiscovery_scheme \<Rightarrow> slice \<Rightarrow> 'a MultiServersDiscovery_scheme \<times> err option"
where
  "Update d srvs = (d\<lparr>dservers := srvs\<rparr>, None)"

definition Get ::
  "heap \<Rightarrow> 'a MultiServersDiscovery_scheme \<Rightarrow> nat \<Rightarrow> int
   \<Rightarrow> string \<times> err option \<times> 'a MultiServersDiscovery_scheme"
where
  "Get h d rnd mode =
     (let n = len (dservers d) in
      if n = 0 then ([], Some (ErrMsg ''rpc discovery: no available servers''), d)
      else if mode = RandomSelect then (elems h (dservers d) ! (rnd mod n), None, d)
      else if mode = RoundRobinSelect then
        (elems h (dservers d) ! (index d mod n), None, d\<lparr>index := (index d + 1) mod n\<rparr>)
      else ([], Some (ErrMsg ''rpc discovery: not supported select mode''), d))"

definition GetAll ::
  "heap \<Rightarrow> 'a MultiServersDiscovery_scheme \<Rightarrow> heap \<times> slice \<times> err option"
where
  "GetAll h d =
     (let n = len (dservers d) in
      case makeStrings h n n of
        (h', srvs) \<Rightarrow> (copy h' srvs (dservers d), srvs, None))"

text \<open>
  The discovery that asks the registry embeds \<open>MultiServersDiscovery\<close>. The registry is
  reached by \<open>http.Get\<close>, which is the parameter \<open>httpGet\<close>: an error, or the value of
  the header \<open>X-Myrpc-Servers\<close> of the response.
\<close>

record CenterRegistryDiscovery = MultiServersDiscovery +
  registryAddr :: string
  dtimeout :: int
  lastUpdate :: int

text \<open>\<open>strings.Split(s, ",")\<close> for a one-byte separator and \<open>strings.TrimSpace\<close> on ASCII.\<close>

fun splitFrom :: "string \<Rightarrow> char \<Rightarrow> string \<Rightarrow> string list" where
  "splitFrom [] c cur = [cur]"
| "splitFrom (x # xs) c cur =
     (if x = c then cur # splitFrom xs c [] else splitFrom xs c (cur @ [x]))"

definition Split :: "string \<Rightarrow> char \<Rightarrow> string list" where
  "Split s c = splitFrom s c []"

definition isSpace :: "char \<Rightarrow> bool" where
  "isSpace c \<longleftrightarrow> c \<in> {CHR '' '', CHR 0x09, CHR 0x0A, CHR 0x0B, CHR 0x0C, CHR 0x0D}"

definition TrimSpace :: "string \<Rightarrow> string" where
  "TrimSpace s = rev (dropWhile isSpace (rev (dropWhile isSpace s)))"

text \<open>The loop of \<open>Refresh\<close> over the parts of the header.\<close>

fun refreshLoop :: "heap \<Rightarrow> slice \<Rightarrow> string list \<Rightarrow> heap \<times> slice" where
  "refreshLoop h s [] = (h, s)"
| "refreshLoop h s (server # rest) =
     (if TrimSpace server \<noteq> []
      then (case appendString h s (TrimSpace server) of (h', s') \<Rightarrow> refreshLoop h' s' rest)
      else refreshLoop h s rest)"

text \<open>
  \<open>Refresh\<close> reads the clock at its start (\<open>now\<close>) and again after the answer of the
  registry (\<open>now'\<close>). The last component lists the URLs it has asked.
\<close>

definition Refresh ::
  "heap \<Rightarrow> CenterRegistryDiscovery \<Rightarrow> (string \<Rightarrow> err + string) \<Rightarrow> int \<Rightarrow> int
   \<Rightarrow> err option \<times> heap \<times> CenterRegistryDiscovery \<times> string list"
where
  "Refresh h d httpGet now now' =
     (if now < lastUpdate d + dtimeout d then (None, h, d, [])
      else
        (case httpGet (registryAddr d) of
           Inl e \<Rightarrow> (Some e, h, d, [registryAddr d])
         | Inr hdr \<Rightarrow>
             (let parts = Split hdr (CHR '','') in
              case makeStrings h 0 (length parts) of
                (h1, s1) \<Rightarrow>
                  (case refreshLoop h1 s1 parts of
                     (h2, s2) \<Rightarrow>
                       (None, h2, d\<lparr>dservers := s2, lastUpdate := now'\<rparr>, [registryAddr d])))))"

definition CenterGet ::
  "heap \<Rightarrow> CenterRegistryDiscovery \<Rightarrow> (string \<Rightarrow> err + string) \<Rightarrow> int \<Rightarrow> int \<Rightarrow> nat \<Rightarrow> int
   \<Rightarrow> (string \<times> err option) \<times> heap \<times> CenterRegistryDiscovery \<times> string list"
where
  "CenterGet h d httpGet now now' rnd mode =
     (case Refresh h d httpGet now now' of
        (Some e, h', d', asked) \<Rightarrow> (([], Some e), h', d', asked)
      | (None, h', d', asked) \<Rightarrow>
          (case Get h' d' rnd mode of (s, e, d'') \<Rightarrow> ((s, e), h', d'', asked)))"

definition CenterGetAll ::
  "heap \<Rightarrow> CenterRegistryDiscovery \<Rightarrow> (string \<Rightarrow> err + string) \<Rightarrow> int \<Rightarrow> int
   \<Rightarrow> (slice \<times> err option) \<times> heap \<times> CenterRegistryDiscovery \<times> string list"
where
  "CenterGetAll h d httpGet now now' =
     (case Refresh h d httpGet now now' of
        (Some e, h', d', asked) \<Rightarrow> ((nilSlice, Some e), h', d', asked)
      | (None, h', d', asked) \<Rightarrow>
          (case GetAll h' d' of (h'', s, e) \<Rightarrow> ((s, e), h'', d', asked)))"

text \<open>A slice is valid in a heap when its window lies inside an allocated array.\<close>

definition validSlice :: "heap \<Rightarrow> slice \<Rightarrow> bool" where
  "validSlice h s \<longleftrightarrow> arr s < length h \<and> len s \<le> cap s \<and> off s + cap s \<le> length (h ! arr s)"

definition demoHeap :: heap where
  "demoHeap = [ [''tcp@a:1'', ''tcp@b:2'', ''tcp@c:3''] ]"

definition demoDiscovery :: MultiServersDiscovery where
  "demoDiscovery = \<lparr>dservers = \<lparr>arr = 0, off = 1, len = 2, cap = 2\<rparr>, index = 5\<rparr>"

definition demoCenter :: CenterRegistryDiscovery where
  "demoCenter =
     \<lparr>dservers = \<lparr>arr = 0, off = 0, len = 3, cap = 3\<rparr>, index = 5,
      registryAddr = ''http://localhost:9999/myRPC/registry'', dtimeout = 10, lastUpdate = 5\<rparr>"

definition registryDown :: "string \<Rightarrow> err + string" where
  "registryDown url = Inl (ErrMsg ''connection refused'')"

definition registryUp :: "string \<Rightarrow> err + string" where
  "registryUp url = Inr ''tcp@d:4, tcp@e:5''"

section \<open>Options and dialling (client.go)\<close>

text \<open>
  The handshake record. \<open>DefaultOption\<close> is the value given with the timeouts in Day 4:
  the magic number, the gob codec and a connect timeout of ten seconds.
\<close>

record Option' =
  MagicNumber :: int
  CodecType :: string
  ConnectTimeout :: int
  HandleTimeout :: int

definition DefaultOption :: Option' where
  "DefaultOption =
     \<lparr>MagicNumber = 0x3bef5c, CodecType = ''application/gob'',
      ConnectTimeout = 10 * 1000000000, HandleTimeout = 0\<rparr>"

text \<open>\<open>parseOption(opts ...*Option)\<close>; a nil pointer is \<open>None\<close>.\<close>

definition parseOption :: "Option' option list \<Rightarrow> err + Option'" where
  "parseOption opts =
     (case opts of
        [] \<Rightarrow> Inr DefaultOption
      | None # rest \<Rightarrow> Inr DefaultOption
      | Some opt # rest \<Rightarrow>
          if length opts \<noteq> 1 then Inl (ErrMsg ''number of options is more than 1'')
          else Inr (opt\<lparr>MagicNumber := MagicNumber DefaultOption,
                        CodecType := (if CodecType opt = [] then CodecType DefaultOption
                                      else CodecType opt)\<rparr>))"

text \<open>
  What \<open>dialTimeout\<close> gives back and does: the results \<open>client\<close> and \<open>err\<close>, the timers
  it has started (\<open>time.After\<close>), the number of tasks it has started with \<open>go\<close>, and
  whether the deferred function has closed the connection.
\<close>

record 'c dialled =
  client :: "'c option"
  derr :: "err option"
  timers :: "int list"
  spawned :: nat
  connClosed :: bool

text \<open>
  \<open>net.DialTimeout\<close> is the parameter \<open>netDial\<close>: an error or a connection. The
  constructor \<open>f\<close> either never returns (\<open>None\<close>) or returns after some time with a
  client and an error. With no timeout the caller waits for the task that runs \<open>f\<close>, for
  ever if \<open>f\<close> never returns (\<open>None\<close>). With a timeout the \<open>select\<close> takes the
  client if \<open>f\<close> is done before the timer fires, and the timer otherwise.
\<close>

definition dialTimeout ::
  "(nat \<Rightarrow> Option' \<Rightarrow> (int \<times> 'c option \<times> err option) option)
   \<Rightarrow> (string \<Rightarrow> string \<Rightarrow> int \<Rightarrow> err + nat)
   \<Rightarrow> string \<Rightarrow> string \<Rightarrow> Option' option list \<Rightarrow> 'c dialled option"
where
  "dialTimeout f netDial network address opts =
     (case parseOption opts of
        Inl e \<Rightarrow>
          Some \<lparr>client = None, derr = Some e, timers = [], spawned = 0, connClosed = False\<rparr>
      | Inr opt \<Rightarrow>
          (case netDial network address (ConnectTimeout opt) of
             Inl e \<Rightarrow>
               Some \<lparr>client = None, derr = Some e, timers = [], spawned = 0, connClosed = False\<rparr>
           | Inr conn \<Rightarrow>
               if ConnectTimeout opt = 0 then
                 (case f conn opt of
                    None \<Rightarrow> None
                  | Some (t, c, e) \<Rightarrow>
                      Some \<lparr>client = c, derr = e, timers = [], spawned = 1,
                            connClosed = (e \<noteq> None)\<rparr>)
               else
                 (case f conn opt of
                    None \<Rightarrow>
                      Some \<lparr>client = None, derr = Some (ErrConnectTimeout (ConnectTimeout opt)),
                            timers = [ConnectTimeout opt], spawned = 1, connClosed = True\<rparr>
                  | Some (t, c, e) \<Rightarrow>
                      if t < ConnectTimeout opt then
                        Some \<lparr>client = c, derr = e, timers = [ConnectTimeout opt], spawned = 1,
                              connClosed = (e \<noteq> None)\<rparr>
                      else
                        Some \<lparr>client = None,
                              derr = Some (ErrConnectTimeout (ConnectTimeout opt)),
                              timers = [ConnectTimeout opt], spawned = 1, connClosed = True\<rparr>)))"


section \<open>Client (client.go)\<close>

text \<open>
  \<open>codec.Header\<close>, \<open>Call\<close> and \<open>Client\<close>. A \<open>*Call\<close> and a \<open>chan *Call\<close> are
  addresses; the objects they point to are in \<open>calls\<close> and \<open>chans\<close>, which the record of
  the client carries along with the fields of the Go struct (\<open>ncalls\<close> and \<open>nchans\<close> are
  the next addresses to allocate). Arguments and replies are kept in encoded form.

  A channel is its capacity, the history \<open>sent\<close> of all the values written to it and the
  number \<open>taken\<close> of values received from it; it holds \<open>length sent - taken\<close> values.
  The map \<open>pending\<close> is an association list with one entry per key.
\<close>

record Header =
  hServiceMethod :: string
  hSeq :: "64 word"
  hError :: string

record Call =
  Seq :: "64 word"
  ServiceMethod :: string
  Args :: string
  Reply :: string
  Error :: "err option"
  Done :: nat

record chan =
  capacity :: nat
  sent :: "nat list"
  taken :: nat

record Client =
  seq :: "64 word"
  header :: Header
  pending :: "(64 word \<times> nat) list"
  isClosed :: bool
  isShutdown :: bool
  calls :: "nat \<Rightarrow> Call"
  ncalls :: nat
  chans :: "nat \<Rightarrow> chan"
  nchans :: nat

definition zeroCall :: Call where
  "zeroCall = \<lparr>Seq = 0, ServiceMethod = [], Args = [], Reply = [], Error = None, Done = 0\<rparr>"

definition zeroChan :: chan where
  "zeroChan = \<lparr>capacity = 0, sent = [], taken = 0\<rparr>"

text \<open>\<open>NewClientCodec\<close>, with no call and no channel allocated yet.\<close>

definition NewClientCodec :: Client where
  "NewClientCodec =
     \<lparr>seq = 1, header = \<lparr>hServiceMethod = [], hSeq = 0, hError = []\<rparr>, pending = [],
      isClosed = False, isShutdown = False,
      calls = (\<lambda>c. zeroCall), ncalls = 0, chans = (\<lambda>ch. zeroChan), nchans = 0\<rparr>"



text \<open>
  \<open>call.done()\<close> writes the call to its channel \<open>Done\<close>. The write needs room in the
  channel; without room it waits (\<open>None\<close>).
\<close>

definition callDone :: "Client \<Rightarrow> nat \<Rightarrow> Client option" where
  "callDone s c =
     (let ch = Done (calls s c); q = chans s ch in
      if length (sent q) - taken q < capacity q
      then Some (s\<lparr>chans := (chans s)(ch := q\<lparr>sent := sent q @ [c]\<rparr>)\<rparr>)
      else None)"

text \<open>
  \<open>call.Error = err\<close>. \<open>Close\<close> below returns \<open>ErrShutdown\<close> on a closed client; on
  an open one it returns what \<open>codec.Close()\<close> returns, taken to be nil.
\<close>

definition setError :: "Client \<Rightarrow> nat \<Rightarrow> err \<Rightarrow> Client" where
  "setError s c e = s\<lparr>calls := (calls s)(c := (calls s c)\<lparr>Error := Some e\<rparr>)\<rparr>"

definition Close :: "Client \<Rightarrow> Client \<times> err option" where
  "Close s = (if isClosed s then (s, Some ErrShutdown) else (s\<lparr>isClosed := True\<rparr>, None))"

definition IsAvailable :: "Client \<Rightarrow> bool" where
  "IsAvailable s \<longleftrightarrow> \<not> isShutdown s \<and> \<not> isClosed s"

definition registerCall :: "Client \<Rightarrow> nat \<Rightarrow> Client \<times> 64 word \<times> err option" where
  "registerCall s c =
     (if isShutdown s \<or> isClosed s then (s, 0, Some ErrShutdown)
      else
        (s\<lparr>calls := (calls s)(c := (calls s c)\<lparr>Seq := seq s\<rparr>),
           pending := AList.update (seq s) c (pending s),
           seq := seq s + 1\<rparr>,
         seq s, None))"


text \<open>The loop of \<open>terminateCalls\<close> over the entries of \<open>pending\<close>.\<close>

fun terminateLoop :: "Client \<Rightarrow> (64 word \<times> nat) list \<Rightarrow> err \<Rightarrow> Client option" where
  "terminateLoop s [] e = Some s"
| "terminateLoop s ((sq, c) # rest) e =
     (case callDone (setError s c e) c of
        None \<Rightarrow> None
      | Some s' \<Rightarrow> terminateLoop s' rest e)"

definition terminateCalls :: "Client \<Rightarrow> err \<Rightarrow> Client option" where
  "terminateCalls s e = terminateLoop (s\<lparr>isShutdown := True\<rparr>) (pending s) e"


text \<open>
  \<open>Go\<close> returns the new call, waits in \<open>send\<close>, or panics on a channel without buffer.
\<close>

datatype 'a outcome = Returns 'a | Waits | Panics string




definition receiveFrom :: "Client \<Rightarrow> nat \<Rightarrow> (Client \<times> nat) option" where
  "receiveFrom s ch =
     (let q = chans s ch in
      if taken q < length (sent q)
      then Some (s\<lparr>chans := (chans s)(ch := q\<lparr>taken := taken q + 1\<rparr>)\<rparr>, sent q ! taken q)
      else None)"

definition CallReceived :: "Client \<Rightarrow> nat \<Rightarrow> (Client \<times> err option) option" where
  "CallReceived s c =
     (case receiveFrom s (Done (calls s c)) of
        None \<Rightarrow> None
      | Some (s', c') \<Rightarrow> Some (s', Error (calls s' c')))"








text \<open>How often a call has been written to its channel \<open>Done\<close>.\<close>

definition signals :: "Client \<Rightarrow> nat \<Rightarrow> nat" where
  "signals s c = count_list (sent (chans s (Done (calls s c)))) c"








section \<open>XClient (Day 6)\<close>

text \<open>
  \<open>XClient\<close> keeps \<open>*Client\<close> pointers by address; a pointer is \<open>None\<close> when nil. The
  discovery \<open>d\<close> is an interface: what \<open>xc.d.Get(xc.mode)\<close> answers is a parameter of
  \<open>XCall\<close>. The clients live in a world beside the \<open>XClient\<close>: the \<open>Client\<close> objects
  by address, and two logs, the addresses handed to \<open>XDial\<close> and the clients on which
  \<open>Client.Call\<close> was invoked.
\<close>

record XClient =
  mode :: int
  opt :: "Option' option"
  clients :: "string \<rightharpoonup> nat option"

record world =
  clientAt :: "nat \<Rightarrow> Client"
  nclients :: nat
  dials :: "string list"
  uses :: "nat list"

text \<open>
  The network: \<open>net.DialTimeout\<close>, the two constructors \<open>NewClient\<close> and
  \<open>NewHTTPClient\<close> (each takes some time and gives a client or an error, or never
  returns), and what \<open>Client.Call\<close> returns for a client, a method and its arguments.
\<close>

record env =
  netDial :: "string \<Rightarrow> string \<Rightarrow> int \<Rightarrow> err + nat"
  newClient :: "nat \<Rightarrow> Option' \<Rightarrow> (int \<times> Client option \<times> err option) option"
  newHTTPClient :: "nat \<Rightarrow> Option' \<Rightarrow> (int \<times> Client option \<times> err option) option"
  clientCall :: "nat \<Rightarrow> string \<Rightarrow> string \<Rightarrow> err option"

text \<open>
  \<open>XDial(rpcAddr, opts...)\<close>: \<open>None\<close> when the dial never returns; otherwise the
  pointer to the new client (placed in the world) and the error.
\<close>

definition XDial ::
  "env \<Rightarrow> world \<Rightarrow> string \<Rightarrow> Option' option list \<Rightarrow> (world \<times> nat option \<times> err option) option"
where
  "XDial en w rpcAddr opts =
     (let w1 = w\<lparr>dials := dials w @ [rpcAddr]\<rparr> in
      case Split rpcAddr (CHR ''@'') of
        [protocol, addr] \<Rightarrow>
          (case (if protocol = ''http''
                 then dialTimeout (newHTTPClient en) (netDial en) ''tcp'' addr opts
                 else dialTimeout (newClient en) (netDial en) protocol addr opts) of
             None \<Rightarrow> None
           | Some r \<Rightarrow>
               (case client r of
                  None \<Rightarrow> Some (w1, None, derr r)
                | Some c \<Rightarrow>
                    Some (w1\<lparr>clientAt := (clientAt w1)(nclients w1 := c),
                              nclients := nclients w1 + 1\<rparr>,
                          Some (nclients w1), derr r)))
      | _ \<Rightarrow>
          Some (w1, None,
                Some (ErrMsg (''rpc client err: wrong format '' @ [CHR 0x27] @ rpcAddr
                              @ [CHR 0x27] @ '', expect protocol@addr''))))"

text \<open>
  \<open>xc.dial\<close>: the cached client if it is available; an unavailable one is closed and
  deleted; with no client left, \<open>XDial(rpcAddr, xc.opt)\<close> and the result is stored.
\<close>

definition xdialNew ::
  "env \<Rightarrow> world \<Rightarrow> XClient \<Rightarrow> string \<Rightarrow> (world \<times> XClient \<times> nat option \<times> err option) outcome"
where
  "xdialNew en w xc rpcAddr =
     (case XDial en w rpcAddr [opt xc] of
        None \<Rightarrow> Waits
      | Some (w', cl, Some e) \<Rightarrow> Returns (w', xc, None, Some e)
      | Some (w', cl, None) \<Rightarrow>
          Returns (w', xc\<lparr>clients := (clients xc)(rpcAddr \<mapsto> cl)\<rparr>, cl, None))"

definition xdial ::
  "env \<Rightarrow> world \<Rightarrow> XClient \<Rightarrow> string \<Rightarrow> (world \<times> XClient \<times> nat option \<times> err option) outcome"
where
  "xdial en w xc rpcAddr =
     (case clients xc rpcAddr of
        None \<Rightarrow> xdialNew en w xc rpcAddr
      | Some None \<Rightarrow> Panics ''invalid memory address or nil pointer dereference''
      | Some (Some c) \<Rightarrow>
          if \<not> IsAvailable (clientAt w c) then
            xdialNew en (w\<lparr>clientAt := (clientAt w)(c := fst (Close (clientAt w c)))\<rparr>)
              (xc\<lparr>clients := (clients xc)(rpcAddr := None)\<rparr>) rpcAddr
          else Returns (w, xc, Some c, None))"

text \<open>\<open>xc.call\<close> and \<open>xc.Call\<close>, as written in Day 6.\<close>

definition xcall ::
  "env \<Rightarrow> world \<Rightarrow> XClient \<Rightarrow> string \<Rightarrow> string \<Rightarrow> string
   \<Rightarrow> (world \<times> XClient \<times> err option) outcome"
where
  "xcall en w xc rpcAddr serviceMethod args =
     (case XDial en w rpcAddr [] of
        None \<Rightarrow> Waits
      | Some (w', cl, Some e) \<Rightarrow> Returns (w', xc, Some e)
      | Some (w', None, None) \<Rightarrow> Panics ''invalid memory address or nil pointer dereference''
      | Some (w', Some c, None) \<Rightarrow>
          Returns (w'\<lparr>uses := uses w' @ [c]\<rparr>, xc, clientCall en c serviceMethod args))"

definition XCall ::
  "env \<Rightarrow> world \<Rightarrow> XClient \<Rightarrow> string \<times> err option \<Rightarrow> string \<Rightarrow> string
   \<Rightarrow> (world \<times> XClient \<times> err option) outcome"
where
  "XCall en w xc got serviceMethod args =
     (case got of
        (rpcAddr, Some e) \<Rightarrow> Returns (w, xc, Some e)
      | (rpcAddr, None) \<Rightarrow> xcall en w xc rpcAddr serviceMethod args)"

text \<open>
  What an outcome shows of the world and the cache: the addresses dialled, the clients
  called, the number of clients, and the cached pointer for an address.
\<close>

definition shown ::
  "(world \<times> XClient \<times> 'a) outcome \<Rightarrow> string
   \<Rightarrow> (string list \<times> nat list \<times> nat \<times> nat option option) option"
where
  "shown out rpcAddr =
     (case out of
        Returns (w, xc, x) \<Rightarrow> Some (dials w, uses w, nclients w, clients xc rpcAddr)
      | _ \<Rightarrow> None)"

text \<open>
  A network where every dial succeeds at once, a world with one available client, and an
  \<open>XClient\<close> that has this client in its cache for \<open>tcp@a:1\<close>.
\<close>

definition demoEnv :: env where
  "demoEnv =
     \<lparr>netDial = (\<lambda>network address t. Inr 1),
      newClient = (\<lambda>conn opt. Some (0, Some NewClientCodec, None)),
      newHTTPClient = (\<lambda>conn opt. Some (0, Some NewClientCodec, None)),
      clientCall = (\<lambda>c serviceMethod args. None)\<rparr>"

definition demoWorld :: world where
  "demoWorld = \<lparr>clientAt = (\<lambda>c. NewClientCodec), nclients = 1, dials = [], uses = []\<rparr>"

definition demoXClient :: XClient where
  "demoXClient =
     \<lparr>mode = RoundRobinSelect, opt = None, clients = [''tcp@a:1'' \<mapsto> Some 0]\<rparr>"

section \<open>Invariants of the client\<close>



text \<open>\<open>s'\<close> is \<open>s\<close> after the call \<open>c\<close> has been written to its channel once.\<close>

definition signalled :: "Client \<Rightarrow> nat \<Rightarrow> Client \<Rightarrow> bool" where
  "signalled s c s' \<longleftrightarrow>
     seq s' = seq s \<and> pending s' = pending s \<and> isClosed s' = isClosed s
     \<and> isShutdown s' = isShutdown s \<and> ncalls s' = ncalls s \<and> nchans s' = nchans s
     \<and> (\<forall>c'. Done (calls s' c') = Done (calls s c'))
     \<and> (\<forall>c'. signals s' c' = signals s c' + (if c' = c then 1 else 0))
     \<and> (\<forall>ch. set (sent (chans s' ch)) \<subseteq> insert c (set (sent (chans s ch))))"







section \<open>Properties of the server\<close>

lemma lastIndexFrom_absent:
  "c \<notin> set s \<Longrightarrow> lastIndexFrom s c i found = found"
  by (induction s arbitrary: i found) auto

lemma lastIndexFrom_ge:
  "found \<le> i - 1 \<Longrightarrow> found \<le> lastIndexFrom s c i found"
proof (induction s arbitrary: i found)
  case Nil
  then show ?case by simp
next
  case (Cons x xs)
  have "(if x = c then i else found) \<le> lastIndexFrom xs c (i + 1) (if x = c then i else found)"
    using Cons.prems by (intro Cons.IH) auto
  then show ?case using Cons.prems by auto
qed

lemma lastIndexFrom_append:
  "lastIndexFrom (a @ b) c i found = lastIndexFrom b c (i + int (length a)) (lastIndexFrom a c i found)"
  by (induction a arbitrary: i found) (auto simp: algebra_simps)

lemma LastIndex_absent: "c \<notin> set s \<Longrightarrow> LastIndex s c = - 1"
  by (simp add: LastIndex_def lastIndexFrom_absent)

lemma LastIndex_split:
  assumes "c \<notin> set m"
  shows "LastIndex (s @ c # m) c = int (length s)"
proof -
  have "lastIndexFrom (c # m) c (int (length s)) (lastIndexFrom s c 0 (- 1)) = int (length s)"
    using assms by (simp add: lastIndexFrom_absent)
  then show ?thesis
    by (simp add: LastIndex_def lastIndexFrom_append)
qed

lemma findService_split:
  assumes "CHR ''.'' \<notin> set m"
  shows "findService server (s @ CHR ''.'' # m) =
     (case serviceMap server s of
        None \<Rightarrow> (None, None, Some (ErrMsg (''rpc server: can't find service '' @ s)))
      | Some svc \<Rightarrow>
          (case methodMap svc m of
             None \<Rightarrow> (Some svc, None, Some (ErrMsg (''rpc server: can't find method '' @ m)))
           | Some mtype \<Rightarrow> (Some svc, Some mtype, None)))"
proof -
  have "LastIndex (s @ CHR ''.'' # m) (CHR ''.'') = int (length s)"
    using assms by (rule LastIndex_split)
  then show ?thesis
    by (simp add: findService_def Let_def)
qed

text \<open>
  C8. \<open>findService\<close> splits the request at the last dot. A request without a dot is
  reported as ill-formed, with the request in the message; a request \<open>s.m\<close> (no dot in
  \<open>m\<close>) is reported as an unknown service \<open>s\<close>, or as an unknown method \<open>m\<close> of the
  known service, or yields the registered service and its method descriptor with a nil
  error.
\<close>

theorem findService_resolves:
  "(CHR ''.'' \<notin> set sm \<longrightarrow>
      findService server sm =
        (None, None, Some (ErrMsg (''rpc server: service/method request ill-formed: '' @ sm))))
   \<and> (CHR ''.'' \<notin> set m \<and> serviceMap server s = None \<longrightarrow>
      findService server (s @ ''.'' @ m) =
        (None, None, Some (ErrMsg (''rpc server: can't find service '' @ s))))
   \<and> (CHR ''.'' \<notin> set m \<and> serviceMap server s = Some svc \<and> methodMap svc m = None \<longrightarrow>
      findService server (s @ ''.'' @ m) =
        (Some svc, None, Some (ErrMsg (''rpc server: can't find method '' @ m))))
   \<and> (CHR ''.'' \<notin> set m \<and> serviceMap server s = Some svc \<and> methodMap svc m = Some mt \<longrightarrow>
      findService server (s @ ''.'' @ m) = (Some svc, Some mt, None))"
proof (intro conjI impI)
  assume "CHR ''.'' \<notin> set sm"
  then have "LastIndex sm (CHR ''.'') = - 1" by (rule LastIndex_absent)
  then show "findService server sm =
      (None, None, Some (ErrMsg (''rpc server: service/method request ill-formed: '' @ sm)))"
    by (simp add: findService_def)
next
  assume "CHR ''.'' \<notin> set m \<and> serviceMap server s = None"
  then show "findService server (s @ ''.'' @ m) =
      (None, None, Some (ErrMsg (''rpc server: can't find service '' @ s)))"
    by (simp add: findService_split)
next
  assume "CHR ''.'' \<notin> set m \<and> serviceMap server s = Some svc \<and> methodMap svc m = None"
  then show "findService server (s @ ''.'' @ m) =
      (Some svc, None, Some (ErrMsg (''rpc server: can't find method '' @ m)))"
    by (simp add: findService_split)
next
  assume "CHR ''.'' \<notin> set m \<and> serviceMap server s = Some svc \<and> methodMap svc m = Some mt"
  then show "findService server (s @ ''.'' @ m) = (Some svc, Some mt, None)"
    by (simp add: findService_split)
qed

lemma fooService_Sum:
  "methodMap fooService ''Sum'' =
     Some \<lparr>method' = sumMethod, ArgType = argsType, ReplyType = ptrIntType, numCalls = 0\<rparr>"
  by (simp add: fooService_def registerMethods_def sumMethod_def badMethod_def Let_def
      isExportedOrBuiltinType_def asciiExported_def argsType_def intType_def ptrIntType_def
      fooType_def errorType_def)

lemma fooService_Bad:
  "methodMap fooService ''Bad'' =
     Some \<lparr>method' = badMethod, ArgType = argsType, ReplyType = intType, numCalls = 0\<rparr>"
  by (simp add: fooService_def registerMethods_def sumMethod_def badMethod_def Let_def
      isExportedOrBuiltinType_def asciiExported_def argsType_def intType_def ptrIntType_def
      fooType_def errorType_def)

lemma fooService_Nope: "methodMap fooService ''Nope'' = None"
  by (simp add: fooService_def registerMethods_def sumMethod_def badMethod_def Let_def
      isExportedOrBuiltinType_def asciiExported_def argsType_def intType_def ptrIntType_def
      fooType_def errorType_def)

theorem findService_resolves_witness:
  "findService fooServer ''FooSum'' =
     (None, None, Some (ErrMsg ''rpc server: service/method request ill-formed: FooSum''))
   \<and> findService fooServer ''main.Bar.Sum'' =
     (None, None, Some (ErrMsg ''rpc server: can't find service main.Bar''))
   \<and> findService fooServer ''Foo.Nope'' =
     (Some fooService, None, Some (ErrMsg ''rpc server: can't find method Nope''))
   \<and> findService fooServer ''Foo.Sum'' =
     (Some fooService,
      Some \<lparr>method' = sumMethod, ArgType = argsType, ReplyType = ptrIntType, numCalls = 0\<rparr>,
      None)"
  using findService_resolves [of "''FooSum''" fooServer "''Sum''" "''main.Bar''" fooService mt]
    findService_resolves [of "''FooSum''" fooServer "''Nope''" "''Foo''" fooService mt]
    findService_resolves [of "''FooSum''" fooServer "''Sum''" "''Foo''" fooService
      "\<lparr>method' = sumMethod, ArgType = argsType, ReplyType = ptrIntType, numCalls = 0\<rparr>"]
  by (simp add: fooServer_def fooService_Sum fooService_Nope)

text \<open>
  C4. \<open>registerMethods\<close> has no test of the kind of the reply type. The method
  \<open>func (f Foo) Bad(args Args, reply int) error\<close>, whose reply is an \<open>int\<close> and not a
  pointer, is registered; \<open>findService\<close> resolves \<open>Foo.Bad\<close> without an error; and
  \<open>newReplyv\<close>, which serves the request next, panics in \<open>ReplyType.Elem()\<close>.
\<close>

theorem registerMethods_keeps_non_pointer_reply:
  "tKind intType \<noteq> PtrKind
   \<and> methodMap fooService ''Bad'' =
       Some \<lparr>method' = badMethod, ArgType = argsType, ReplyType = intType, numCalls = 0\<rparr>
   \<and> findService fooServer ''Foo.Bad'' =
       (Some fooService,
        Some \<lparr>method' = badMethod, ArgType = argsType, ReplyType = intType, numCalls = 0\<rparr>,
        None)
   \<and> newReplyv \<lparr>method' = badMethod, ArgType = argsType, ReplyType = intType, numCalls = 0\<rparr> =
       Inl (Panic ''reflect: Elem of invalid type'')"
  using findService_split [of "''Bad''" fooServer "''Foo''"]
  by (simp add: fooServer_def fooService_Bad intType_def)

section \<open>Properties of the registry\<close>

lemma getAliveLoop_eq:
  "getAliveLoop t now es alive m =
     (alive @ map fst (filter (\<lambda>e. t = 0 \<or> now < start (snd e) + t) es),
      filter (\<lambda>kv. fst kv \<notin> set (map fst (filter (\<lambda>e. \<not> (t = 0 \<or> now < start (snd e) + t)) es))) m)"
proof (induction es arbitrary: alive m)
  case Nil
  then show ?case by simp
next
  case (Cons e es)
  obtain a sv where e: "e = (a, sv)" by (cases e)
  have del: "AList.delete a m = filter (\<lambda>kv. fst kv \<noteq> a) m"
    by (induction m) auto
  show ?case
  proof (cases "t = 0 \<or> now < start sv + t")
    case True
    then show ?thesis using Cons.IH [of "alive @ [a]" m] e by auto
  next
    case False
    then show ?thesis using Cons.IH [of alive "AList.delete a m"] e
      by (simp add: del conj_commute)
  qed
qed

lemma filter_keys_distinct:
  assumes "distinct (map fst es)"
  shows "filter (\<lambda>kv. fst kv \<notin> set (map fst (filter (\<lambda>e. \<not> P e) es))) es = filter P es"
proof (rule filter_cong [OF refl])
  fix x assume x: "x \<in> set es"
  obtain k v where kv: "x = (k, v)" by (cases x)
  have "k \<in> set (map fst (filter (\<lambda>e. \<not> P e) es)) \<longleftrightarrow> \<not> P (k, v)"
  proof
    assume "k \<in> set (map fst (filter (\<lambda>e. \<not> P e) es))"
    then obtain v' where v': "(k, v') \<in> set es" "\<not> P (k, v')" by auto
    have "v' = v" using assms v'(1) x kv by (meson eq_key_imp_eq_value)
    then show "\<not> P (k, v)" using v' by simp
  next
    assume "\<not> P (k, v)"
    then show "k \<in> set (map fst (filter (\<lambda>e. \<not> P e) es))" using x kv by force
  qed
  then show "(fst x \<notin> set (map fst (filter (\<lambda>e. \<not> P e) es))) = P x"
    using kv by simp
qed

lemma getAliveServers_eq:
  assumes "distinct (map fst (servers r))"
  shows "getAliveServers r now =
     (sort (map fst (filter (\<lambda>e. timeout r = 0 \<or> now < start (snd e) + timeout r) (servers r))),
      r\<lparr>servers := filter (\<lambda>e. timeout r = 0 \<or> now < start (snd e) + timeout r) (servers r)\<rparr>)"
  using filter_keys_distinct [OF assms, of "\<lambda>e. timeout r = 0 \<or> now < start (snd e) + timeout r"]
  by (simp add: getAliveServers_def getAliveLoop_eq)

lemma map_of_filter_distinct:
  assumes "distinct (map fst es)"
  shows "map_of (filter P es) a =
     (case map_of es a of None \<Rightarrow> None | Some v \<Rightarrow> if P (a, v) then Some v else None)"
  using assms
proof (induction es)
  case Nil
  then show ?case by simp
next
  case (Cons e es)
  obtain k v where e: "e = (k, v)" by (cases e)
  have notin: "k \<notin> fst ` set es" using Cons.prems e by simp
  have n1: "map_of es k = None" using notin by (simp add: map_of_eq_None_iff)
  have n2: "map_of (filter P es) k = None" using notin by (auto simp: map_of_eq_None_iff)
  have ih: "map_of (filter P es) a =
     (case map_of es a of None \<Rightarrow> None | Some v \<Rightarrow> if P (a, v) then Some v else None)"
    using Cons by simp
  show ?case
  proof (cases "a = k")
    case True
    then show ?thesis using n1 n2 e by simp
  next
    case False
    then show ?thesis using ih e by simp
  qed
qed

text \<open>
  C5. With one entry per address in the map, a GET of the registry at \<open>now\<close> reports
  exactly the addresses whose last heartbeat plus the timeout lies after \<open>now\<close> (every
  address when the timeout is 0), in ascending order and without repetition; the map it
  leaves holds these entries, unchanged, and no others; with the timeout 0 the registry
  is left as it was. \<open>ServeHTTP\<close> answers a GET with that list, joined by commas.
\<close>

theorem getAliveServers_alive_sorted:
  assumes "distinct (map fst (servers r))"
  shows "set (fst (getAliveServers r now)) = {a. aliveAt r now a}
    \<and> sorted (fst (getAliveServers r now))
    \<and> distinct (fst (getAliveServers r now))
    \<and> (\<forall>a. map_of (servers (snd (getAliveServers r now))) a =
          (if aliveAt r now a then map_of (servers r) a else None))
    \<and> (timeout r = 0 \<longrightarrow>
          set (fst (getAliveServers r now)) = fst ` set (servers r)
          \<and> snd (getAliveServers r now) = r)
    \<and> ServeHTTP r now \<lparr>reqMethod = ''GET'', reqServer = x\<rparr> =
        (\<lparr>status = 200, respServers = Some (Join (fst (getAliveServers r now)) '','')\<rparr>,
         snd (getAliveServers r now))"
proof -
  let ?P = "\<lambda>e. timeout r = 0 \<or> now < start (snd e) + timeout r"
  have eq: "getAliveServers r now =
      (sort (map fst (filter ?P (servers r))), r\<lparr>servers := filter ?P (servers r)\<rparr>)"
    using assms by (rule getAliveServers_eq)
  have mo: "\<And>a. map_of (filter ?P (servers r)) a =
      (if aliveAt r now a then map_of (servers r) a else None)"
    by (simp add: map_of_filter_distinct [OF assms] aliveAt_def split: option.splits)
  have dk: "distinct (map fst (filter ?P (servers r)))"
    using assms by (simp add: distinct_map_filter)
  have "\<And>a. a \<in> set (map fst (filter ?P (servers r))) \<longleftrightarrow> aliveAt r now a"
  proof -
    fix a
    have "a \<in> set (map fst (filter ?P (servers r))) \<longleftrightarrow> map_of (filter ?P (servers r)) a \<noteq> None"
      by (simp add: map_of_eq_None_iff)
    also have "\<dots> \<longleftrightarrow> aliveAt r now a"
      by (auto simp: mo aliveAt_def split: option.splits)
    finally show "a \<in> set (map fst (filter ?P (servers r))) \<longleftrightarrow> aliveAt r now a" .
  qed
  then have "set (map fst (filter ?P (servers r))) = {a. aliveAt r now a}"
    by blast
  then have c1: "set (fst (getAliveServers r now)) = {a. aliveAt r now a}"
    by (simp add: eq)
  have c2: "sorted (fst (getAliveServers r now))" by (simp add: eq)
  have c3: "distinct (fst (getAliveServers r now))" using dk by (simp add: eq)
  have c4: "\<forall>a. map_of (servers (snd (getAliveServers r now))) a =
          (if aliveAt r now a then map_of (servers r) a else None)"
    by (simp add: eq mo)
  have c5: "timeout r = 0 \<longrightarrow>
          set (fst (getAliveServers r now)) = fst ` set (servers r)
          \<and> snd (getAliveServers r now) = r"
    by (simp add: eq)
  have c6: "ServeHTTP r now \<lparr>reqMethod = ''GET'', reqServer = x\<rparr> =
        (\<lparr>status = 200, respServers = Some (Join (fst (getAliveServers r now)) '','')\<rparr>,
         snd (getAliveServers r now))"
    by (simp add: ServeHTTP_def split: prod.splits)
  show ?thesis using c1 c2 c3 c4 c5 c6 by blast
qed

lemma demoRegistry_eq:
  "demoRegistry = \<lparr>timeout = 300, servers =
     [(''tcp@b:2'', \<lparr>Addr = ''tcp@b:2'', start = 100\<rparr>),
      (''tcp@c:3'', \<lparr>Addr = ''tcp@c:3'', start = 350\<rparr>),
      (''tcp@a:1'', \<lparr>Addr = ''tcp@a:1'', start = 400\<rparr>)]\<rparr>"
  by (simp add: demoRegistry_def putServer_def New_def)

lemma putServer_distinct:
  "distinct (map fst (servers r)) \<Longrightarrow> distinct (map fst (servers (putServer r now addr)))"
  by (simp add: putServer_def distinct_update split: option.splits)

theorem getAliveServers_alive_sorted_witness:
  "distinct (map fst (servers demoRegistry))
   \<and> fst (getAliveServers demoRegistry 420) = [''tcp@a:1'', ''tcp@c:3'']
   \<and> {a. aliveAt demoRegistry 420 a} = {''tcp@a:1'', ''tcp@c:3''}
   \<and> map fst (servers (snd (getAliveServers demoRegistry 420))) = [''tcp@c:3'', ''tcp@a:1'']
   \<and> fst (ServeHTTP demoRegistry 420 \<lparr>reqMethod = ''GET'', reqServer = []\<rparr>) =
       \<lparr>status = 200, respServers = Some ''tcp@a:1,tcp@c:3''\<rparr>
   \<and> timeout (demoRegistry\<lparr>timeout := 0\<rparr>) = 0
   \<and> fst (getAliveServers (demoRegistry\<lparr>timeout := 0\<rparr>) 420) =
       [''tcp@a:1'', ''tcp@b:2'', ''tcp@c:3'']
   \<and> snd (getAliveServers (demoRegistry\<lparr>timeout := 0\<rparr>) 420) = demoRegistry\<lparr>timeout := 0\<rparr>"
  using getAliveServers_alive_sorted [of demoRegistry 420 "[]"]
    getAliveServers_alive_sorted [of "demoRegistry\<lparr>timeout := 0\<rparr>" 420 "[]"]
  by (simp add: demoRegistry_eq getAliveServers_def)


section \<open>Properties of the discovery\<close>

lemma copyElems_length [simp]: "length (copyElems h dst vs i) = length h"
  by (induction vs arbitrary: h i) auto

lemma copyElems_other: "a \<noteq> arr dst \<Longrightarrow> copyElems h dst vs i ! a = h ! a"
  by (induction vs arbitrary: h i) auto

lemma copyElems_array_length:
  "length (copyElems h dst vs i ! arr dst) = length (h ! arr dst)"
proof (induction vs arbitrary: h i)
  case Nil
  then show ?case by simp
next
  case (Cons v vs)
  show ?case
  proof (cases "arr dst < length h")
    case True
    then show ?thesis using Cons.IH by simp
  next
    case False
    then show ?thesis using Cons.IH by (simp add: list_update_beyond)
  qed
qed

lemma copyElems_nth:
  assumes "arr dst < length h" "j < len dst" "off dst + len dst \<le> length (h ! arr dst)"
  shows "(copyElems h dst vs i ! arr dst) ! (off dst + j) =
     (if i \<le> j \<and> j < i + length vs then vs ! (j - i) else (h ! arr dst) ! (off dst + j))"
  using assms
proof (induction vs arbitrary: h i)
  case Nil
  then show ?case by auto
next
  case (Cons v vs)
  show ?case
  proof (cases "i < len dst")
    case False
    then show ?thesis using Cons.prems by simp
  next
    case True
    let ?h = "h[arr dst := (h ! arr dst)[off dst + i := v]]"
    have l: "arr dst < length ?h" using Cons.prems by simp
    have w: "off dst + len dst \<le> length (?h ! arr dst)" using Cons.prems by simp
    have ih: "(copyElems ?h dst vs (i + 1) ! arr dst) ! (off dst + j) =
       (if i + 1 \<le> j \<and> j < i + 1 + length vs then vs ! (j - (i + 1))
        else (?h ! arr dst) ! (off dst + j))"
      using Cons.IH [OF l Cons.prems(2) w] .
    show ?thesis
    proof (cases "j = i")
      case True
      then show ?thesis using ih \<open>i < len dst\<close> Cons.prems
        by simp
    next
      case False
      then show ?thesis using ih \<open>i < len dst\<close> Cons.prems
        by (auto simp: nth_Cons')
    qed
  qed
qed

lemma elems_length: "validSlice h s \<Longrightarrow> length (elems h s) = len s"
  by (auto simp: elems_def validSlice_def)

lemma setElem_other:
  "setElem h s i v = Some h' \<Longrightarrow> length h' = length h \<and> (\<forall>a. a \<noteq> arr s \<longrightarrow> h' ! a = h ! a)"
  by (auto simp: setElem_def split: if_splits)

lemma setElems_other:
  "setElems h s ws = Some h' \<Longrightarrow> length h' = length h \<and> (\<forall>a. a \<noteq> arr s \<longrightarrow> h' ! a = h ! a)"
proof (induction ws arbitrary: h)
  case Nil
  then show ?case by simp
next
  case (Cons w ws)
  obtain i v where w: "w = (i, v)" by (cases w)
  from Cons.prems w obtain h1 where h1: "setElem h s i v = Some h1" "setElems h1 s ws = Some h'"
    by (auto split: option.splits)
  show ?case using setElem_other [OF h1(1)] Cons.IH [OF h1(2)] by simp
qed

lemma GetAll_eq:
  "GetAll h d =
     (copy (h @ [replicate (len (dservers d)) []])
        \<lparr>arr = length h, off = 0, len = len (dservers d), cap = len (dservers d)\<rparr> (dservers d),
      \<lparr>arr = length h, off = 0, len = len (dservers d), cap = len (dservers d)\<rparr>, None)"
  by (simp add: GetAll_def makeStrings_def Let_def)

lemma elems_old:
  "arr s < length h \<Longrightarrow> length h' = length h + 1 \<Longrightarrow> (\<forall>a. a \<noteq> length h \<longrightarrow> h' ! a = (h @ [x]) ! a)
   \<Longrightarrow> elems h' s = elems h s"
  by (simp add: elems_def nth_append)

text \<open>
  C10. \<open>GetAll\<close> of \<open>MultiServersDiscovery\<close> returns a nil error and a slice on a
  new array that holds the servers of the discovery. Whatever is then written through the
  returned slice, by assignments \<open>s[i] = v\<close> or by \<open>append\<close>, the servers that the
  discovery's own field \<open>servers\<close> shows stay what they were.
\<close>

theorem GetAll_fresh_copy:
  assumes "validSlice h (dservers d)" and "GetAll h d = (h', s, e)"
  shows "e = None
    \<and> elems h' s = elems h (dservers d)
    \<and> elems h' (dservers d) = elems h (dservers d)
    \<and> (\<forall>ws h''. setElems h' s ws = Some h'' \<longrightarrow> elems h'' (dservers d) = elems h (dservers d))
    \<and> (\<forall>v. elems (fst (appendString h' s v)) (dservers d) = elems h (dservers d))"
proof -
  let ?n = "len (dservers d)"
  let ?s = "\<lparr>arr = length h, off = 0, len = ?n, cap = ?n\<rparr>"
  let ?h0 = "h @ [replicate ?n []]"
  from assms(2) have e: "e = None" and s: "s = ?s" and h': "h' = copy ?h0 ?s (dservers d)"
    by (auto simp: GetAll_eq)
  have a: "arr (dservers d) < length h" using assms(1) by (simp add: validSlice_def)
  have src: "elems ?h0 (dservers d) = elems h (dservers d)"
    using a by (simp add: elems_def nth_append)
  have lsrc: "length (elems h (dservers d)) = ?n" using assms(1) by (rule elems_length)
  have hl: "length h' = length h + 1" by (simp add: h' copy_def)
  have other: "\<forall>a. a \<noteq> length h \<longrightarrow> h' ! a = ?h0 ! a"
    by (simp add: h' copy_def copyElems_other)
  have keep: "elems h' (dservers d) = elems h (dservers d)"
    using elems_old [OF a hl other] .
  have al: "length (h' ! length h) = ?n"
    using copyElems_array_length [of ?h0 ?s "elems ?h0 (dservers d)" 0]
    by (simp add: h' copy_def)
  have nth: "\<And>j. j < ?n \<Longrightarrow> (h' ! length h) ! j = elems h (dservers d) ! j"
    using copyElems_nth [of ?s ?h0 _ "elems ?h0 (dservers d)" 0] lsrc
    by (simp add: h' copy_def src)
  have l1: "length (elems h' s) = ?n" by (simp add: s elems_def al)
  have cp: "elems h' s = elems h (dservers d)"
  proof (rule nth_equalityI)
    show "length (elems h' s) = length (elems h (dservers d))" using l1 lsrc by simp
  next
    fix j assume "j < length (elems h' s)"
    then have j: "j < ?n" using l1 by simp
    have "elems h' s ! j = (h' ! length h) ! j" using j by (simp add: s elems_def)
    then show "elems h' s ! j = elems h (dservers d) ! j" using nth [OF j] by simp
  qed
  have wr: "\<forall>ws h''. setElems h' s ws = Some h'' \<longrightarrow> elems h'' (dservers d) = elems h (dservers d)"
  proof (intro allI impI)
    fix ws h'' assume "setElems h' s ws = Some h''"
    from setElems_other [OF this] have "length h'' = length h + 1"
      and "\<forall>a. a \<noteq> length h \<longrightarrow> h'' ! a = ?h0 ! a"
      using hl other by (simp_all add: s)
    then show "elems h'' (dservers d) = elems h (dservers d)"
      using elems_old [OF a] by blast
  qed
  have ap: "\<forall>v. elems (fst (appendString h' s v)) (dservers d) = elems h (dservers d)"
  proof
    fix v
    have "fst (appendString h' s v) = h' @ [elems h' s @ [v]]"
      by (simp add: appendString_def s)
    then have "elems (fst (appendString h' s v)) (dservers d) = elems h' (dservers d)"
      using a hl by (simp add: elems_def nth_append)
    then show "elems (fst (appendString h' s v)) (dservers d) = elems h (dservers d)"
      using keep by simp
  qed
  show ?thesis using e cp keep wr ap by blast
qed

theorem GetAll_fresh_copy_witness:
  "validSlice demoHeap (dservers demoDiscovery)
   \<and> GetAll demoHeap demoDiscovery =
       ([ [''tcp@a:1'', ''tcp@b:2'', ''tcp@c:3''], [''tcp@b:2'', ''tcp@c:3''] ],
        \<lparr>arr = 1, off = 0, len = 2, cap = 2\<rparr>, None)
   \<and> setElems [ [''tcp@a:1'', ''tcp@b:2'', ''tcp@c:3''], [''tcp@b:2'', ''tcp@c:3''] ]
        \<lparr>arr = 1, off = 0, len = 2, cap = 2\<rparr> [(0, ''x''), (1, ''y'')] =
       Some [ [''tcp@a:1'', ''tcp@b:2'', ''tcp@c:3''], [''x'', ''y''] ]
   \<and> elems [ [''tcp@a:1'', ''tcp@b:2'', ''tcp@c:3''], [''x'', ''y''] ] (dservers demoDiscovery) =
       elems demoHeap (dservers demoDiscovery)"
  using GetAll_fresh_copy [of demoHeap demoDiscovery
      "[ [''tcp@a:1'', ''tcp@b:2'', ''tcp@c:3''], [''tcp@b:2'', ''tcp@c:3''] ]"
      "\<lparr>arr = 1, off = 0, len = 2, cap = 2\<rparr>" None]
  by (simp add: demoHeap_def demoDiscovery_def validSlice_def GetAll_eq copy_def elems_def
      setElem_def eval_nat_numeral)


text \<open>
  C9. When the cache of the discovery has run out and the GET to the registry fails with
  \<open>e\<close>, \<open>Refresh\<close> returns \<open>e\<close> and leaves the server list and \<open>lastUpdate\<close> as
  they were; \<open>Get\<close> and \<open>GetAll\<close> return \<open>e\<close> as well. At any later instant
  \<open>Refresh\<close>, \<open>Get\<close> and \<open>GetAll\<close> ask the registry again, whatever it answers
  then.
\<close>

theorem Refresh_failure_keeps_cache:
  assumes "\<not> now < lastUpdate d + dtimeout d"
    and "httpGet (registryAddr d) = Inl e"
    and "now \<le> later"
  shows "Refresh h d httpGet now now' = (Some e, h, d, [registryAddr d])
    \<and> CenterGet h d httpGet now now' rnd sel = (([], Some e), h, d, [registryAddr d])
    \<and> CenterGetAll h d httpGet now now' = ((nilSlice, Some e), h, d, [registryAddr d])
    \<and> snd (snd (snd (Refresh h d g later later'))) = [registryAddr d]
    \<and> snd (snd (snd (CenterGet h d g later later' rnd' sel'))) = [registryAddr d]
    \<and> snd (snd (snd (CenterGetAll h d g later later'))) = [registryAddr d]"
proof -
  have r1: "Refresh h d httpGet now now' = (Some e, h, d, [registryAddr d])"
    using assms(1,2) by (simp add: Refresh_def)
  have exp: "\<not> later < lastUpdate d + dtimeout d"
    using assms(1,3) by simp
  have r2: "snd (snd (snd (Refresh h d g later later'))) = [registryAddr d]"
    using exp by (simp add: Refresh_def Let_def split: sum.splits prod.splits)
  have g1: "CenterGet h d httpGet now now' rnd sel = (([], Some e), h, d, [registryAddr d])"
    by (simp add: CenterGet_def r1)
  have g2: "CenterGetAll h d httpGet now now' = ((nilSlice, Some e), h, d, [registryAddr d])"
    by (simp add: CenterGetAll_def r1)
  obtain e2 h2 d2 asked where rr: "Refresh h d g later later' = (e2, h2, d2, asked)"
    by (metis prod_cases4)
  have asked: "asked = [registryAddr d]" using r2 rr by simp
  have g3: "snd (snd (snd (CenterGet h d g later later' rnd' sel'))) = [registryAddr d]"
    by (simp add: CenterGet_def rr asked split: option.splits prod.splits)
  have g4: "snd (snd (snd (CenterGetAll h d g later later'))) = [registryAddr d]"
    by (simp add: CenterGetAll_def rr asked split: option.splits prod.splits)
  show ?thesis using r1 r2 g1 g2 g3 g4 by blast
qed

theorem Refresh_failure_keeps_cache_witness:
  "\<not> 20 < lastUpdate demoCenter + dtimeout demoCenter
   \<and> registryDown (registryAddr demoCenter) = Inl (ErrMsg ''connection refused'')
   \<and> (20 :: int) \<le> 30
   \<and> Refresh demoHeap demoCenter registryDown 20 21 =
       (Some (ErrMsg ''connection refused''), demoHeap, demoCenter, [registryAddr demoCenter])
   \<and> snd (snd (snd (CenterGetAll demoHeap demoCenter registryUp 30 31))) =
       [''http://localhost:9999/myRPC/registry'']"
  using Refresh_failure_keeps_cache [where now = 20 and d = demoCenter and httpGet = registryDown
      and e = "ErrMsg ''connection refused''" and later = 30 and h = demoHeap and now' = 21
      and g = registryUp and later' = 31]
  by (simp add: demoCenter_def registryDown_def)

section \<open>Properties of the dial\<close>



section \<open>Properties of the client\<close>





lemma registerCall_accepted:
  "\<not> isShutdown s \<Longrightarrow> \<not> isClosed s \<Longrightarrow>
     registerCall s c = (s', sq, e) \<Longrightarrow> sq = seq s \<and> e = None \<and> seq s' = seq s + 1"
  by (auto simp: registerCall_def)












lemma setError_signals [simp]: "signals (setError s c e) c' = signals s c'"
  by (simp add: signals_def setError_def)




text \<open>
  \<open>terminateCalls\<close> returns when the pending calls have channels of their own with room
  for one more value, as the calls of \<open>Client.Call\<close> have.
\<close>

lemma terminateLoop_returns:
  assumes "distinct (map (\<lambda>p. Done (calls s (snd p))) ps)"
    and "\<forall>p \<in> set ps. length (sent (chans s (Done (calls s (snd p)))))
            - taken (chans s (Done (calls s (snd p))))
          < capacity (chans s (Done (calls s (snd p))))"
  shows "terminateLoop s ps e \<noteq> None"
  using assms
proof (induction ps arbitrary: s)
  case Nil
  then show ?case by simp
next
  case (Cons p ps)
  obtain sq c where p: "p = (sq, c)" by (cases p)
  let ?ch = "Done (calls s c)"
  let ?q = "chans s ?ch"
  let ?s1 = "(setError s c e)\<lparr>chans := (chans s)(?ch := ?q\<lparr>sent := sent ?q @ [c]\<rparr>)\<rparr>"
  have room: "length (sent ?q) - taken ?q < capacity ?q" using Cons.prems(2) p by simp
  then have d: "callDone (setError s c e) c = Some ?s1"
    by (simp add: callDone_def setError_def Let_def)
  have dn: "\<And>c'. Done (calls (setError s c e) c') = Done (calls s c')"
    by (simp add: setError_def)
  have "?ch \<notin> (\<lambda>p. Done (calls s (snd p))) ` set ps"
    using Cons.prems(1) p by simp
  then have other: "\<And>p'. p' \<in> set ps \<Longrightarrow> Done (calls s (snd p')) \<noteq> ?ch"
    by (metis imageI)
  have "distinct (map (\<lambda>p. Done (calls ?s1 (snd p))) ps)"
    using Cons.prems(1) by (simp add: dn)
  moreover have "\<forall>p' \<in> set ps. length (sent (chans ?s1 (Done (calls ?s1 (snd p')))))
            - taken (chans ?s1 (Done (calls ?s1 (snd p'))))
          < capacity (chans ?s1 (Done (calls ?s1 (snd p'))))"
  proof
    fix p' assume p': "p' \<in> set ps"
    have "chans ?s1 (Done (calls s (snd p'))) = chans s (Done (calls s (snd p')))"
      using other [OF p'] by simp
    then show "length (sent (chans ?s1 (Done (calls ?s1 (snd p')))))
            - taken (chans ?s1 (Done (calls ?s1 (snd p'))))
          < capacity (chans ?s1 (Done (calls ?s1 (snd p'))))"
      using Cons.prems(2) p' by (simp add: dn)
  qed
  ultimately have "terminateLoop ?s1 ps e \<noteq> None" by (rule Cons.IH)
  then show ?case using d p by simp
qed

lemma terminateCalls_returns:
  assumes "distinct (map (\<lambda>p. Done (calls s (snd p))) (pending s))"
    and "\<forall>p \<in> set (pending s). length (sent (chans s (Done (calls s (snd p)))))
            - taken (chans s (Done (calls s (snd p))))
          < capacity (chans s (Done (calls s (snd p))))"
  shows "terminateCalls s e \<noteq> None"
  using terminateLoop_returns [of "s\<lparr>isShutdown := True\<rparr>" "pending s" e] assms
  by (simp add: terminateCalls_def)










lemma callDone_signalled:
  "callDone s c = Some s' \<Longrightarrow> signalled s c s'"
  by (auto simp: callDone_def signalled_def signals_def Let_def split: if_splits)


lemma callDone_setReply_signalled:
  "callDone (s\<lparr>calls := (calls s)(c := (calls s c)\<lparr>Reply := b\<rparr>)\<rparr>) c = Some s' \<Longrightarrow> signalled s c s'"
  by (auto simp: callDone_def signalled_def signals_def Let_def split: if_splits)

lemma signals_pending_upd [simp]: "signals (s\<lparr>pending := p\<rparr>) c = signals s c"
  by (simp add: signals_def)














lemma signals_eqI:
  "Done (calls s' c) = Done (calls s c) \<Longrightarrow> chans s' (Done (calls s c)) = chans s (Done (calls s c))
     \<Longrightarrow> signals s' c = signals s c"
  by (simp add: signals_def)









lemma signals_cong:
  "Done (calls s' c) = Done (calls s c) \<Longrightarrow> sent (chans s' (Done (calls s c))) = sent (chans s (Done (calls s c)))
     \<Longrightarrow> signals s' c = signals s c"
  by (simp add: signals_def)


























section \<open>Properties of XClient\<close>

lemma xdial_reuses:
  "clients xc a = Some (Some c) \<Longrightarrow> IsAvailable (clientAt w c) \<Longrightarrow>
     xdial en w xc a = Returns (w, xc, Some c, None)"
  by (simp add: xdial_def)

lemma xcall_always_dials:
  "xcall en w xc a sm args = Returns (w', xc', e) \<Longrightarrow> dials w' = dials w @ [a] \<and> xc' = xc"
  by (auto simp: xcall_def XDial_def Let_def split: option.splits list.splits if_splits)

text \<open>
  C1. \<open>XClient.Call\<close> goes through \<open>xc.call\<close>, which calls \<open>XDial\<close> itself and
  never \<open>xc.dial\<close>. With an available client in the cache for \<open>tcp@a:1\<close>,
  \<open>xc.dial\<close> returns that client and dials nothing; \<open>XClient.Call\<close> for the same
  address dials the address again, calls the new client (number 1, not the cached number
  0) and leaves the cache as it was, so the next call dials once more.
\<close>

theorem XCall_bypasses_cache:
  "clients demoXClient ''tcp@a:1'' = Some (Some 0)
   \<and> IsAvailable (clientAt demoWorld 0)
   \<and> shown (xdial demoEnv demoWorld demoXClient ''tcp@a:1'') ''tcp@a:1'' =
       Some ([], [], 1, Some (Some 0))
   \<and> shown (XCall demoEnv demoWorld demoXClient (''tcp@a:1'', None) ''Foo.Sum'' ''3,4'') ''tcp@a:1'' =
       Some ([''tcp@a:1''], [1], 2, Some (Some 0))"
  by (simp add: demoXClient_def demoWorld_def demoEnv_def IsAvailable_def NewClientCodec_def
      shown_def xdial_def XCall_def xcall_def XDial_def Split_def dialTimeout_def parseOption_def
      DefaultOption_def)

end
